theory Spec2Isabelle
  imports Main
begin

section \<open>Python values\<close>

text \<open>
  The session layer of gd.py (\<^verbatim>\<open>gd/session.py\<close>) is dynamically typed: a reply of
  the HTTP layer is an \<^verbatim>\<open>int\<close> or a \<^verbatim>\<open>str\<close>, a parsed reply is a \<^verbatim>\<open>dict\<close>, a
  \<^verbatim>\<open>list\<close>, a \<^verbatim>\<open>str\<close> or \<^verbatim>\<open>None\<close>, and the results are lists of domain objects.
  \<open>pyval\<close> is the part of Python's value universe these functions handle. A \<^verbatim>\<open>str\<close>
  is a list of code points below 256, one \<open>char\<close> each. \<open>PObj c args\<close> is an instance
  of a library class \<open>c\<close> (a Level, a User, a configured Parser ...) whose class is
  outside \<^verbatim>\<open>session.py\<close>; \<open>args\<close> is what it was built from.
\<close>

datatype pyval =
    PNone
  | PBool bool
  | PInt int
  | PStr string
  | PList "pyval list"
  | PDict "(pyval \<times> pyval) list"
  | PObj string "pyval list"

datatype error =
    AttributeError
  | ValueError
  | TypeError
  | IndexError
  | KeyError
  | AssertionError
  | MissingAccess
  | NothingFound string
  | LoginFailure
  | SongRestrictedForUsage
  | NotLoggedError string
  | OtherError string

text \<open>
  \<^verbatim>\<open>bool(x)\<close>, as \<^verbatim>\<open>if elem\<close>, \<^verbatim>\<open>not resp\<close> and \<^verbatim>\<open>filter\<close> use it: \<^verbatim>\<open>None\<close>, \<^verbatim>\<open>False\<close>,
  \<^verbatim>\<open>0\<close> and the empty string, list and dict are false; an object of a class with
  neither \<^verbatim>\<open>__bool__\<close> nor \<^verbatim>\<open>__len__\<close> is true.
\<close>

fun truthy :: "pyval \<Rightarrow> bool" where
  "truthy PNone = False"
| "truthy (PBool b) = b"
| "truthy (PInt i) = (i \<noteq> 0)"
| "truthy (PStr s) = (s \<noteq> [])"
| "truthy (PList xs) = (xs \<noteq> [])"
| "truthy (PDict kvs) = (kvs \<noteq> [])"
| "truthy (PObj c args) = True"

text \<open>
  \<^verbatim>\<open>iter(x)\<close>: the elements of a list, the one-character strings of a string, the keys
  of a dict; \<^verbatim>\<open>TypeError\<close> for \<^verbatim>\<open>None\<close>, a bool, an int and a plain object.
\<close>

fun py_iter :: "pyval \<Rightarrow> error + pyval list" where
  "py_iter (PList xs) = Inr xs"
| "py_iter (PStr s) = Inr (map (\<lambda>c. PStr [c]) s)"
| "py_iter (PDict kvs) = Inr (map fst kvs)"
| "py_iter PNone = Inl TypeError"
| "py_iter (PBool b) = Inl TypeError"
| "py_iter (PInt i) = Inl TypeError"
| "py_iter (PObj c args) = Inl TypeError"

section \<open>Strings and integers\<close>

text \<open>\<^verbatim>\<open>str(n)\<close> of an int: its decimal digits, with a minus sign below zero.\<close>

definition digit_char :: "nat \<Rightarrow> char" where
  "digit_char d = ''0123456789'' ! d"

function nat_digits :: "nat \<Rightarrow> string" where
  "nat_digits n = (if n < 10 then [digit_char n] else nat_digits (n div 10) @ [digit_char (n mod 10)])"
  by pat_completeness auto
termination
  by (relation "measure id") auto

declare nat_digits.simps [simp del]

definition str_int :: "int \<Rightarrow> string" where
  "str_int i = (if i < 0 then CHR ''-'' # nat_digits (nat (- i)) else nat_digits (nat i))"

text \<open>
  \<^verbatim>\<open>str.isdigit()\<close>: the string is not empty and every character is a digit. Below
  code point 256 the digits are \<^verbatim>\<open>0\<close> to \<^verbatim>\<open>9\<close> and the superscripts two, three and
  one (U+00B2, U+00B3, U+00B9), which \<^verbatim>\<open>isdigit\<close> accepts and \<^verbatim>\<open>int\<close> refuses.
\<close>

definition ascii_digit :: "char \<Rightarrow> bool" where
  "ascii_digit c = (48 \<le> (of_char c :: nat) \<and> (of_char c :: nat) \<le> 57)"

definition superscript_digit :: "char \<Rightarrow> bool" where
  "superscript_digit c = ((of_char c :: nat) = 178 \<or> (of_char c :: nat) = 179 \<or> (of_char c :: nat) = 185)"

definition isdigit :: "string \<Rightarrow> bool" where
  "isdigit s = (s \<noteq> [] \<and> list_all (\<lambda>c. ascii_digit c \<or> superscript_digit c) s)"

text \<open>
  \<^verbatim>\<open>int(s)\<close> of a string, base ten: surrounding whitespace is dropped, one sign may
  lead, then come decimal digits, where single underscores may stand between two
  digits. Anything else is a \<^verbatim>\<open>ValueError\<close> (\<open>None\<close> here).
\<close>

definition digit_val :: "char \<Rightarrow> nat" where
  "digit_val c = of_char c - 48"

definition is_space :: "char \<Rightarrow> bool" where
  "is_space c = ((of_char c :: nat) \<in> set [9, 10, 11, 12, 13, 28, 29, 30, 31, 32, 133, 160])"

definition strip :: "string \<Rightarrow> string" where
  "strip s = rev (dropWhile is_space (rev (dropWhile is_space s)))"

fun digits_value :: "bool \<Rightarrow> nat \<Rightarrow> string \<Rightarrow> nat option" where
  "digits_value prev acc [] = (if prev then Some acc else None)"
| "digits_value prev acc (c # cs) =
     (if ascii_digit c then digits_value True (10 * acc + digit_val c) cs
      else if c = CHR ''_'' \<and> prev then digits_value False acc cs
      else None)"

definition py_int :: "string \<Rightarrow> int option" where
  "py_int s =
     (case strip s of
        [] \<Rightarrow> None
      | c # cs \<Rightarrow>
          if c = CHR ''-'' then map_option (\<lambda>n. - int n) (digits_value False 0 cs)
          else if c = CHR ''+'' then map_option int (digits_value False 0 cs)
          else map_option int (digits_value False 0 (c # cs)))"

definition int_of_str :: "string \<Rightarrow> error + int" where
  "int_of_str s = (case py_int s of None \<Rightarrow> Inl ValueError | Some n \<Rightarrow> Inr n)"

text \<open>
  \<^verbatim>\<open>s.split(sep)\<close> with a separator: the pieces between the occurrences of \<open>sep\<close>,
  found from the left without overlap; always at least one piece. Every call of
  \<^verbatim>\<open>session.py\<close> passes a literal, non-empty separator.
\<close>

function split_from :: "string \<Rightarrow> string \<Rightarrow> string \<Rightarrow> string list" where
  "split_from sep acc s =
     (if s = [] then [rev acc]
      else if sep \<noteq> [] \<and> take (length sep) s = sep
        then rev acc # split_from sep [] (drop (length sep) s)
      else split_from sep (hd s # acc) (tl s))"
  by pat_completeness auto
termination
  by (relation "measure (\<lambda>(sep, acc, s). length s)") auto

declare split_from.simps [simp del]

definition split :: "string \<Rightarrow> string \<Rightarrow> string list" where
  "split s sep = split_from sep [] s"

section \<open>run_many\<close>






section \<open>The password field of upload_level\<close>

text \<open>
  \<^verbatim>\<open>password: Optional[Union[int, str]]\<close>, and lines 275 to 283 of \<^verbatim>\<open>upload_level\<close>:
  \<^verbatim>\<open>
  pwd = 0
  if copyable and password is None:
      pwd = 1
  check, add = str(password), 1000000
  if check.isdigit() and int(check) < add:
      pwd = add + int(password)
  \<close>
\<close>

datatype password = NoPassword | IntPassword int | StrPassword string

fun str_password :: "password \<Rightarrow> string" where
  "str_password NoPassword = ''None''"
| "str_password (IntPassword n) = str_int n"
| "str_password (StrPassword s) = s"

fun int_password :: "password \<Rightarrow> error + int" where
  "int_password NoPassword = Inl TypeError"
| "int_password (IntPassword n) = Inr n"
| "int_password (StrPassword s) = int_of_str s"

definition upload_level_pwd :: "bool \<Rightarrow> password \<Rightarrow> error + int" where
  "upload_level_pwd copyable password =
     (let pwd = (if copyable \<and> password = NoPassword then 1 else 0);
          check = str_password password;
          add = 1000000
      in if isdigit check then
           (case py_int check of
              None \<Rightarrow> Inl ValueError
            | Some n \<Rightarrow>
                if n < add then
                  (case int_password password of Inl e \<Rightarrow> Inl e | Inr m \<Rightarrow> Inr (add + m))
                else Inr pwd)
         else Inr pwd)"

text \<open>The number a string of decimal digits writes, most significant digit first.\<close>

definition decimal :: "string \<Rightarrow> nat" where
  "decimal s = foldl (\<lambda>a c. 10 * a + digit_val c) 0 s"

section \<open>The route table\<close>

text \<open>
  \<^verbatim>\<open>gd/utils/routes.py\<close>: the class \<^verbatim>\<open>Route\<close> is a namespace of string constants, here
  the list of its attributes in the order of the file. \<^verbatim>\<open>Route.NAME\<close> on a name the
  class does not define raises \<^verbatim>\<open>AttributeError\<close>.
\<close>

definition Route :: "(string \<times> string) list" where
  "Route =
    [(''GET_USER_INFO'', ''getGJUserInfo20''),
     (''USER_SEARCH'', ''getGJUsers20''),
     (''DOWNLOAD_LEVEL'', ''downloadGJLevel22''),
     (''LEVEL_SEARCH'', ''getGJLevels21''),
     (''GET_SONG_INFO'', ''getGJSongInfo''),
     (''GET_FRIENDS'', ''getGJUserList20''),
     (''GET_COMMENTS'', ''getGJAccountComments20''),
     (''GET_PRIVATE_MESSAGES'', ''getGJMessages20''),
     (''READ_PRIVATE_MESSAGE'', ''downloadGJMessage20''),
     (''SEND_PRIVATE_MESSAGE'', ''uploadGJMessage20''),
     (''DELETE_PRIVATE_MESSAGE'', ''deleteGJMessages20''),
     (''GET_TIMELY'', ''getGJDailyLevel''),
     (''LOGIN'', ''accounts/loginGJAccount''),
     (''CAPTCHA'', ''accounts/captcha''),
     (''MANAGE_ACCOUNT'', ''accounts/accountManagement''),
     (''CHANGE_PASSWORD'', ''accounts/changepassword''),
     (''CHANGE_USERNAME'', ''accounts/changeusername''),
     (''DELETE_ACC_COMMENT'', ''deleteGJAccComment20''),
     (''DELETE_LEVEL_COMMENT'', ''deleteGJComment20''),
     (''UPLOAD_COMMENT'', ''uploadGJComment21''),
     (''UPLOAD_ACC_COMMENT'', ''uploadGJAccComment20''),
     (''UPDATE_ACC_SETTINGS'', ''updateGJAccSettings20''),
     (''GET_FRIEND_REQUESTS'', ''getGJFriendRequests20''),
     (''DELETE_REQUEST'', ''deleteGJFriendRequests20''),
     (''ACCEPT_REQUEST'', ''acceptGJFriendRequest20''),
     (''REQUEST_MODERATOR'', ''requestUserAccess''),
     (''GET_COMMENT_HISTORY'', ''getGJCommentHistory'')]"

definition Route_attr :: "string \<Rightarrow> error + string" where
  "Route_attr attr = (case map_of Route attr of None \<Rightarrow> Inl AttributeError | Some path \<Rightarrow> Inr path)"

text \<open>
  Every \<^verbatim>\<open>Route.NAME\<close> that \<^verbatim>\<open>session.py\<close> evaluates, with the method that evaluates
  it, in the order of the file.
\<close>

definition session_routes :: "(string \<times> string) list" where
  "session_routes =
    [(''get_song'', ''GET_SONG_INFO''),
     (''get_ng_song'', ''NEWGROUNDS_SONG_LISTEN''),
     (''get_user'', ''GET_USER_INFO''),
     (''get_user'', ''USER_SEARCH''),
     (''search_user'', ''USER_SEARCH''),
     (''search_user'', ''GET_USER_INFO''),
     (''get_level'', ''DOWNLOAD_LEVEL''),
     (''get_level'', ''LEVEL_SEARCH''),
     (''get_timely'', ''GET_TIMELY''),
     (''upload_level'', ''UPLOAD_LEVEL''),
     (''get_user_list'', ''GET_USER_LIST''),
     (''get_leaderboard'', ''GET_LEVEL_SCORES''),
     (''get_top'', ''GET_USER_TOP''),
     (''login'', ''LOGIN''),
     (''load_save'', ''GD_URL''),
     (''load_save'', ''LOAD_DATA''),
     (''do_save'', ''GD_URL''),
     (''do_save'', ''SAVE_DATA''),
     (''search_levels_on_page'', ''LEVEL_SEARCH''),
     (''report_level'', ''REPORT_LEVEL''),
     (''delete_level'', ''DELETE_LEVEL''),
     (''update_level_desc'', ''UPDATE_LEVEL_DESC''),
     (''rate_level'', ''RATE_LEVEL_STARS''),
     (''rate_demon'', ''RATE_LEVEL_DEMON''),
     (''send_level'', ''SUGGEST_LEVEL_STARS''),
     (''like'', ''LIKE_ITEM''),
     (''get_page_messages'', ''GET_PRIVATE_MESSAGES''),
     (''post_comment'', ''UPLOAD_ACC_COMMENT''),
     (''comment_level'', ''UPLOAD_COMMENT''),
     (''delete_comment'', ''DELETE_LEVEL_COMMENT''),
     (''delete_comment'', ''DELETE_ACC_COMMENT''),
     (''send_friend_request'', ''SEND_REQUEST''),
     (''delete_friend_req'', ''DELETE_REQUEST''),
     (''accept_friend_req'', ''ACCEPT_REQUEST''),
     (''read_friend_req'', ''READ_REQUEST''),
     (''read_message'', ''READ_PRIVATE_MESSAGE''),
     (''delete_message'', ''DELETE_PRIVATE_MESSAGE''),
     (''get_gauntlets'', ''GET_GAUNTLETS''),
     (''get_page_map_packs'', ''GET_MAP_PACKS''),
     (''get_page_friend_requests'', ''GET_FRIEND_REQUESTS''),
     (''retrieve_page_comments'', ''GET_COMMENT_HISTORY''),
     (''retrieve_page_comments'', ''GET_ACC_COMMENTS''),
     (''get_level_comments'', ''GET_COMMENTS''),
     (''block_user'', ''UNBLOCK_USER''),
     (''block_user'', ''BLOCK_USER''),
     (''unfriend_user'', ''REMOVE_FRIEND''),
     (''send_message'', ''SEND_PRIVATE_MESSAGE''),
     (''update_profile'', ''UPDATE_USER_SCORE''),
     (''update_settings'', ''UPDATE_ACC_SETTINGS'')]"

text \<open>
  Modelled from the spec: the path literals of the backend (section 6 of the
  specification, "must be reproduced exactly, case-sensitive"), in the order given there.
\<close>

definition backend_paths :: "string list" where
  "backend_paths =
    [''getGJUserInfo20'', ''getGJUsers20'', ''downloadGJLevel22'', ''getGJLevels21'',
     ''getGJSongInfo'', ''getGJUserList20'', ''getGJAccountComments20'', ''getGJMessages20'',
     ''downloadGJMessage20'', ''uploadGJMessage20'', ''deleteGJMessages20'',
     ''getGJDailyLevel'', ''accounts/loginGJAccount'', ''accounts/captcha'',
     ''accounts/accountManagement'', ''accounts/changepassword'',
     ''accounts/changeusername'', ''deleteGJAccComment20'', ''deleteGJComment20'',
     ''uploadGJComment21'', ''uploadGJAccComment20'', ''updateGJAccSettings20'',
     ''getGJFriendRequests20'', ''deleteGJFriendRequests20'', ''acceptGJFriendRequest20'',
     ''requestUserAccess'', ''getGJCommentHistory'']"

section \<open>Requests and asynchronous operations\<close>

text \<open>
  A method of \<^verbatim>\<open>GDSession\<close> is a coroutine: it runs until it returns, raises, or awaits
  \<^verbatim>\<open>http.request(route, parameters, ...)\<close>, and goes on with what the request returns.
  \<open>'a io\<close> is that: \<open>Await rq k\<close> is the coroutine suspended at a request \<open>rq\<close>, with
  \<open>k\<close> the rest of the method body as a function of the value \<^verbatim>\<open>http.request\<close> hands
  back.

  A request names the attribute of \<^verbatim>\<open>Route\<close> the call site writes (and the one for
  \<^verbatim>\<open>custom_base\<close>, when given). The parameters are the chain of calls on
  \<^verbatim>\<open>Params()\<close>, each a method name with its arguments: the builder
  (\<^verbatim>\<open>gd/utils/params.py\<close>) is outside \<^verbatim>\<open>session.py\<close>.
\<close>

type_synonym call = "string \<times> pyval list"

record request =
  route :: string
  parameters :: "call list"
  error_codes :: "(int \<times> error) list"
  raise_errors :: bool
  custom_base :: "string option"

datatype 'a io =
    Return 'a
  | Raise error
  | Await request "pyval \<Rightarrow> 'a io"

fun attempt :: "error + 'a \<Rightarrow> ('a \<Rightarrow> 'b io) \<Rightarrow> 'b io" where
  "attempt (Inl e) k = Raise e"
| "attempt (Inr x) k = k x"

fun and_then :: "error + 'a \<Rightarrow> ('a \<Rightarrow> error + 'b) \<Rightarrow> error + 'b" where
  "and_then (Inl e) k = Inl e"
| "and_then (Inr x) k = k x"

primrec bind_io :: "'a io \<Rightarrow> ('a \<Rightarrow> 'b io) \<Rightarrow> 'b io" where
  "bind_io (Return x) f = f x"
| "bind_io (Raise e) f = Raise e"
| "bind_io (Await rq k) f = Await rq (\<lambda>resp. bind_io (k resp) f)"

fun map_err :: "('a \<Rightarrow> error + 'b) \<Rightarrow> 'a list \<Rightarrow> error + 'b list" where
  "map_err f [] = Inr []"
| "map_err f (x # xs) =
     (case f x of
        Inl e \<Rightarrow> Inl e
      | Inr y \<Rightarrow> (case map_err f xs of Inl e \<Rightarrow> Inl e | Inr ys \<Rightarrow> Inr (y # ys)))"

text \<open>
  Modelled from the spec: \<^verbatim>\<open>http.request\<close> (\<^verbatim>\<open>gd/utils/http_request.py\<close> is not among
  the sources). Section 4.10: "After receiving the raw text body, if it is a bare integer
  matching a key in \<^verbatim>\<open>error_codes\<close> and \<^verbatim>\<open>raise_errors\<close> is true, raises the
  corresponding pre-built error; otherwise returns the raw text body (or the bare
  integer) unchanged". The body is a \<open>PInt\<close> when the server answered a bare integer and
  a \<open>PStr\<close> otherwise.
\<close>

definition http_request :: "(int \<times> error) list \<Rightarrow> bool \<Rightarrow> pyval \<Rightarrow> error + pyval" where
  "http_request codes raise body =
     (case body of
        PInt code \<Rightarrow>
          (case map_of codes code of
             Some e \<Rightarrow> if raise then Inl e else Inr body
           | None \<Rightarrow> Inr body)
      | _ \<Rightarrow> Inr body)"

text \<open>
  \<open>respond op body\<close>: the operation \<open>op\<close>, suspended at a request, after the server has
  answered that request with \<open>body\<close>.
\<close>

fun respond :: "'a io \<Rightarrow> pyval \<Rightarrow> 'a io" where
  "respond (Await rq k) body =
     (case http_request (error_codes rq) (raise_errors rq) body of
        Inl e \<Rightarrow> Raise e
      | Inr resp \<Rightarrow> k resp)"
| "respond (Return x) body = Return x"
| "respond (Raise e) body = Raise e"

text \<open>The request an operation is suspended at, if any.\<close>

fun pending :: "'a io \<Rightarrow> request option" where
  "pending (Await rq k) = Some rq"
| "pending (Return x) = None"
| "pending (Raise e) = None"

text \<open>
  \<open>exec server op\<close> runs an operation to its end against a server, a function from the
  path and the parameters of a request to the body of the reply. It evaluates the
  \<^verbatim>\<open>Route\<close> attributes of each request as the call site does, before the request goes
  out, and returns the outcome with the requests that went out, the last one first.
\<close>

definition resolve :: "request \<Rightarrow> error + string" where
  "resolve rq =
     (case custom_base rq of
        None \<Rightarrow> Route_attr (route rq)
      | Some base \<Rightarrow>
          (case Route_attr base of
             Inl e \<Rightarrow> Inl e
           | Inr url \<Rightarrow> (case Route_attr (route rq) of Inl e \<Rightarrow> Inl e | Inr path \<Rightarrow> Inr (url @ path))))"

primrec exec_from :: "(string \<Rightarrow> call list \<Rightarrow> pyval) \<Rightarrow> 'a io \<Rightarrow> request list \<Rightarrow> (error + 'a) \<times> request list" where
  "exec_from server (Return x) sent = (Inr x, sent)"
| "exec_from server (Raise e) sent = (Inl e, sent)"
| "exec_from server (Await rq k) sent =
     (case resolve rq of
        Inl e \<Rightarrow> (Inl e, sent)
      | Inr url \<Rightarrow>
          (case http_request (error_codes rq) (raise_errors rq) (server url (parameters rq)) of
             Inl e \<Rightarrow> (Inl e, rq # sent)
           | Inr resp \<Rightarrow> exec_from server (k resp) (rq # sent)))"

definition exec :: "(string \<Rightarrow> call list \<Rightarrow> pyval) \<Rightarrow> 'a io \<Rightarrow> (error + 'a) \<times> request list" where
  "exec server op = exec_from server op []"

section \<open>What the session layer works with\<close>

text \<open>
  The Client, as far as \<^verbatim>\<open>session.py\<close> reads and writes it. \<open>client_obj\<close> is the client
  as an argument of a call into the library.
\<close>

record client =
  client_account_id :: int
  client_id :: int
  client_name :: pyval
  client_password :: pyval
  client_encodedpass :: pyval
  client_save_api :: pyval
  client_save :: pyval

definition client_obj :: "client \<Rightarrow> pyval" where
  "client_obj c =
     PObj ''Client''
       [PInt (client_account_id c), PInt (client_id c), client_name c, client_password c,
        client_encodedpass c, client_save_api c, client_save c]"

text \<open>
  The collaborators of \<^verbatim>\<open>session.py\<close> whose code is outside it are parameters of the
  model:
  \<^item> \<open>parse env chain x\<close> is \<^verbatim>\<open>Parser().m1(..).m2(..).parse(x)\<close> for the chain of
    configuring calls \<open>chain\<close> (\<^verbatim>\<open>gd/utils/parser.py\<close>);
  \<^item> \<open>lib env f args\<close> is the call \<^verbatim>\<open>f(*args)\<close> of a converter, a coder, the save
    parser or a method of a domain object;
  \<^item> \<open>Index env n\<close> is the constant \<^verbatim>\<open>Index.n\<close> (\<^verbatim>\<open>gd/utils/indexer.py\<close>);
  \<^item> \<open>check_logged_obj env c func_name\<close> is \<^verbatim>\<open>check_logged_obj(c, func_name)\<close>
    (\<^verbatim>\<open>gd/utils/decorators.py\<close>), which raises when the client is not logged in;
  \<^item> \<open>upd env attr v c\<close> is \<^verbatim>\<open>c._upd(attr, v)\<close>, the client after the write.
  Each may raise.
\<close>

record env =
  parse :: "call list \<Rightarrow> pyval \<Rightarrow> error + pyval"
  lib :: "string \<Rightarrow> pyval list \<Rightarrow> error + pyval"
  Index :: "string \<Rightarrow> pyval"
  check_logged_obj :: "client \<Rightarrow> string \<Rightarrow> error + unit"
  upd :: "string \<Rightarrow> pyval \<Rightarrow> client \<Rightarrow> error + client"

text \<open>
  Modelled from the spec: the search strategies (section 4.3; \<^verbatim>\<open>gd/utils/enums.py\<close>
  is not among the sources) and the part of a Filters object the session reads: its
  strategy. \<open>filters_value\<close> is the object as the parameter builder receives it.
  \<^verbatim>\<open>Filters.setup_empty()\<close> is, by section 4.6, the default factory: no filters, the
  REGULAR strategy.
\<close>

datatype SearchStrategy =
    REGULAR | MOST_LIKED | MOST_DOWNLOADED | TRENDING | RECENT | BY_USER
  | FEATURED | MAGIC | AWARDED | FOLLOWED | FRIENDS | HALL_OF_FAME

record filters =
  strategy :: SearchStrategy
  filters_value :: pyval

definition setup_empty :: filters where
  "setup_empty = \<lparr>strategy = REGULAR, filters_value = PObj ''Filters'' []\<rparr>"

text \<open>Arguments that are domain objects, with the attributes the session reads.\<close>

record level =
  level_obj_id :: pyval

record user =
  user_id :: pyval
  user_account_id :: pyval
  user_dict_for_parse :: pyval

record enum_member =
  member_name :: string
  member_value :: int

definition enum_obj :: "enum_member \<Rightarrow> pyval" where
  "enum_obj m = PObj ''Enum'' [PStr (member_name m), PInt (member_value m)]"

record message =
  message_id :: pyval
  message_type :: enum_member
  message_body :: pyval

datatype user_arg = NoUser | UserInt int | UserObj user

subsection \<open>Operations of Python's built-in types\<close>

text \<open>
  \<^verbatim>\<open>x.get(k)\<close>: a dict answers with the value or \<^verbatim>\<open>None\<close>; no other built-in value has
  the attribute, and neither has a Parser (section 4.8 of the specification lists its
  operations).
\<close>

fun py_get :: "pyval \<Rightarrow> pyval \<Rightarrow> error + pyval" where
  "py_get (PDict kvs) k = Inr (case map_of kvs k of None \<Rightarrow> PNone | Some v \<Rightarrow> v)"
| "py_get v k = Inl AttributeError"

text \<open>\<^verbatim>\<open>x[k]\<close> on a dict, a list and a string.\<close>

definition py_index :: "'a list \<Rightarrow> int \<Rightarrow> error + 'a" where
  "py_index xs i =
     (let n = int (length xs); j = (if i < 0 then n + i else i)
      in if 0 \<le> j \<and> j < n then Inr (xs ! nat j) else Inl IndexError)"

fun py_getitem :: "pyval \<Rightarrow> pyval \<Rightarrow> error + pyval" where
  "py_getitem (PDict kvs) k = (case map_of kvs k of None \<Rightarrow> Inl KeyError | Some v \<Rightarrow> Inr v)"
| "py_getitem (PList xs) (PInt i) = py_index xs i"
| "py_getitem (PStr s) (PInt i) = and_then (py_index s i) (\<lambda>c. Inr (PStr [c]))"
| "py_getitem v k = Inl TypeError"

text \<open>\<^verbatim>\<open>d[k] = v\<close> keeps the place of a key the dict has and appends a new one.\<close>

definition dict_set :: "(pyval \<times> pyval) list \<Rightarrow> pyval \<Rightarrow> pyval \<Rightarrow> (pyval \<times> pyval) list" where
  "dict_set kvs k v =
     (if map_of kvs k = None then kvs @ [(k, v)]
      else map (\<lambda>(k', v'). if k' = k then (k', v) else (k', v')) kvs)"

fun py_update :: "pyval \<Rightarrow> (pyval \<times> pyval) list \<Rightarrow> error + pyval" where
  "py_update (PDict kvs) new = Inr (PDict (foldl (\<lambda>d (k, v). dict_set d k v) kvs new))"
| "py_update v new = Inl AttributeError"

fun py_split :: "pyval \<Rightarrow> string \<Rightarrow> error + string list" where
  "py_split (PStr s) sep = Inr (split s sep)"
| "py_split v sep = Inl AttributeError"

definition is_not_empty :: "string \<Rightarrow> bool" where
  "is_not_empty sequence = (length sequence \<noteq> 0)"

text \<open>\<^verbatim>\<open>s.lower()\<close> on the ASCII letters, which the names of the enumerations are made of.\<close>

definition lower_char :: "char \<Rightarrow> char" where
  "lower_char c =
     (if 65 \<le> (of_char c :: nat) \<and> (of_char c :: nat) \<le> 90 then char_of ((of_char c :: nat) + 32) else c)"

definition lower :: "string \<Rightarrow> string" where
  "lower s = map lower_char s"

text \<open>\<^verbatim>\<open>xs.index(x)\<close> of a tuple or list: the first position, or \<^verbatim>\<open>ValueError\<close>.\<close>

fun index_of :: "'a \<Rightarrow> 'a list \<Rightarrow> error + int" where
  "index_of x [] = Inl ValueError"
| "index_of x (y # ys) = (if x = y then Inr 0 else and_then (index_of x ys) (\<lambda>i. Inr (i + 1)))"

text \<open>A configured Parser as a value: the class name and the chain of calls made on it.\<close>

definition Parser :: "call list \<Rightarrow> pyval" where
  "Parser chain = PObj ''Parser'' (map (\<lambda>(m, args). PList (PStr m # args)) chain)"

text \<open>
  Modelled from the spec: \<^verbatim>\<open>utils.get\<close> (section 4.4; the function is not among the
  sources) "returns the first element of a sequence whose named attributes equal the
  given values, or not found (no exception) otherwise". The session calls it with the
  attribute \<^verbatim>\<open>id\<close> only.
\<close>

definition utils_get :: "env \<Rightarrow> pyval list \<Rightarrow> pyval \<Rightarrow> pyval" where
  "utils_get env sequence v =
     (case find (\<lambda>x. lib env ''getattr'' [x, PStr ''id''] = Inr v) sequence of
        None \<Rightarrow> PNone
      | Some x \<Rightarrow> x)"

section \<open>The operations of GDSession\<close>

subsection \<open>get_user (lines 110 to 142)\<close>

definition get_user :: "env \<Rightarrow> pyval \<Rightarrow> bool \<Rightarrow> client \<Rightarrow> pyval io" where
  "get_user env account_id return_only_stats c =
     Await
       \<lparr>route = ''GET_USER_INFO'',
        parameters = [(''create_new'', []), (''put_definer'', [PStr ''user'', account_id]), (''finish'', [])],
        error_codes = [(- 1, MissingAccess)], raise_errors = True, custom_base = None\<rparr>
       (\<lambda>resp.
          attempt (parse env [(''with_split'', [PStr '':'']), (''should_map'', [])] resp) (\<lambda>resp.
          if return_only_stats
          then attempt (lib env ''ClassConverter.user_stats_convert'' [resp, client_obj c]) Return
          else
            attempt (py_get resp (Index env ''USER_PLAYER_ID'')) (\<lambda>player_id.
            Await
              \<lparr>route = ''USER_SEARCH'',
               parameters =
                 [(''create_new'', []), (''put_definer'', [PStr ''search'', player_id]),
                  (''put_total'', [PInt 0]), (''put_page'', [PInt 0]), (''finish'', [])],
               error_codes = [], raise_errors = True, custom_base = None\<rparr>
              (\<lambda>some_resp.
                 attempt
                   (parse env
                      [(''split'', [PStr ''#'']), (''take'', [PInt 0]), (''check_empty'', []),
                       (''split'', [PStr '':'']), (''should_map'', [])]
                      some_resp) (\<lambda>new_resp.
                 if new_resp = PNone then Return PNone
                 else
                   attempt
                     (map_err (\<lambda>k. and_then (py_get new_resp k) (\<lambda>v. Inr (k, v)))
                        [Index env ''USER_NAME'', Index env ''USER_ICON'', Index env ''USER_ICON_TYPE''])
                     (\<lambda>merged.
                   attempt (py_update resp merged) (\<lambda>resp.
                   attempt (lib env ''ClassConverter.user_convert'' [resp, client_obj c]) Return)))))))"

subsection \<open>get_level (lines 195 to 241)\<close>

text \<open>
  Lines 212 to 241: with the level's fields parsed, a search by the level's own id
  gives the song and the creator.
\<close>

definition get_level_found :: "env \<Rightarrow> pyval \<Rightarrow> (int \<times> error) list \<Rightarrow> client \<Rightarrow> pyval io" where
  "get_level_found env level_data codes c =
     attempt (py_get level_data (Index env ''LEVEL_ID'')) (\<lambda>real_id.
     Await
       \<lparr>route = ''LEVEL_SEARCH'',
        parameters =
          [(''create_new'', []), (''put_definer'', [PStr ''search'', real_id]),
           (''put_filters'', [filters_value setup_empty]), (''finish'', [])],
        error_codes = codes, raise_errors = True, custom_base = None\<rparr>
       (\<lambda>resp.
          attempt (py_split resp ''#'') (\<lambda>resp.
          attempt (py_index resp 2) (\<lambda>song_data.
          attempt
            (if song_data = []
             then and_then (py_get level_data (Index env ''LEVEL_AUDIO_TRACK''))
                    (\<lambda>track. lib env ''Converter.to_normal_song'' [track])
             else and_then (parse env [(''with_split'', [PStr ''~|~'']), (''should_map'', [])] (PStr song_data))
                    (\<lambda>parsed. lib env ''ClassConverter.song_convert'' [parsed])) (\<lambda>song.
          attempt (lib env ''attach_client'' [song, client_obj c]) (\<lambda>song.
          attempt (py_index resp 1) (\<lambda>creator_data.
          attempt
            (if creator_data = [] then Inr (PInt 0, PStr ''unknown'', PInt 0)
             else case split creator_data '':'' of
                    [a, b, d] \<Rightarrow> Inr (PStr a, PStr b, PStr d)
                  | _ \<Rightarrow> Inl ValueError) (\<lambda>(creator_id, creator_name, creator_account_id).
          attempt
            (lib env ''ClassConverter.abstractuser_convert''
               [PDict [(PStr ''id'', creator_id), (PStr ''name'', creator_name),
                       (PStr ''account_id'', creator_account_id)],
                client_obj c]) (\<lambda>creator.
          attempt (lib env ''ClassConverter.level_convert'' [level_data, song, creator, client_obj c])
            Return)))))))))"

text \<open>
  Lines 198 to 210:
  \<^verbatim>\<open>
  assert level_id >= -2
  type, number, cooldown = timetuple
  ext = {101: type, 102: number, 103: cooldown}
  codes = {-1: MissingAccess(...)}
  parameters = Params().create_new().put_definer('levelid', level_id).finish()
  resp = await http.request(Route.DOWNLOAD_LEVEL, parameters, error_codes=codes)
  level_data = Parser().split('#').take(0).split(':').add_ext(ext).should_map().parse(resp)
  \<close>
\<close>

definition get_level :: "env \<Rightarrow> int \<Rightarrow> int \<times> int \<times> int \<Rightarrow> client \<Rightarrow> pyval io" where
  "get_level env level_id timetuple c =
     (if \<not> level_id \<ge> - 2 then Raise AssertionError
      else
        case timetuple of (type_arg, number, cooldown) \<Rightarrow>
        let ext = PDict [(PInt 101, PInt type_arg), (PInt 102, PInt number), (PInt 103, PInt cooldown)];
            codes = [(- 1, MissingAccess)]
        in
        Await
          \<lparr>route = ''DOWNLOAD_LEVEL'',
           parameters = [(''create_new'', []), (''put_definer'', [PStr ''levelid'', PInt level_id]), (''finish'', [])],
           error_codes = codes, raise_errors = True, custom_base = None\<rparr>
          (\<lambda>resp.
             attempt
               (parse env
                  [(''split'', [PStr ''#'']), (''take'', [PInt 0]), (''split'', [PStr '':'']),
                   (''add_ext'', [ext]), (''should_map'', [])]
                  resp) (\<lambda>level_data.
             get_level_found env level_data codes c)))"

subsection \<open>get_timely (lines 243 to 259)\<close>

definition get_timely :: "env \<Rightarrow> string \<Rightarrow> client \<Rightarrow> pyval io" where
  "get_timely env type_arg c =
     attempt (index_of type_arg [''daily'', ''weekly'']) (\<lambda>w.
     Await
       \<lparr>route = ''GET_TIMELY'',
        parameters = [(''create_new'', []), (''put_weekly'', [PInt w]), (''finish'', [])],
        error_codes = [(- 1, MissingAccess)], raise_errors = True, custom_base = None\<rparr>
       (\<lambda>resp.
          if \<not> truthy resp then Raise MissingAccess
          else
            attempt (py_split resp ''|'') (\<lambda>fields.
            attempt (map_err int_of_str fields) (\<lambda>numbers.
            case numbers of
              num # cooldown # rest \<Rightarrow>
                let num = num mod 100000; w = w + 1
                in bind_io (get_level env (- w) (w, num, cooldown) c)
                     (\<lambda>level. attempt (lib env ''attach_client'' [level, client_obj c]) Return)
            | _ \<Rightarrow> Raise ValueError))))"

subsection \<open>get_user_list (lines 320 to 347)\<close>

definition get_user_list :: "env \<Rightarrow> int \<Rightarrow> client \<Rightarrow> pyval io" where
  "get_user_list env type_arg c =
     Await
       \<lparr>route = ''GET_USER_LIST'',
        parameters =
          [(''create_new'', []), (''put_definer'', [PStr ''accountid'', PInt (client_account_id c)]),
           (''put_password'', [client_encodedpass c]), (''put_type'', [PInt type_arg]), (''finish'', [])],
        error_codes = [(- 1, MissingAccess), (- 2, NothingFound ''gd.AbstractUser'')],
        raise_errors = True, custom_base = None\<rparr>
       (\<lambda>resp.
          attempt (py_split resp ''|'') (\<lambda>resp.
          attempt
            (map_err
               (\<lambda>elem.
                  and_then (parse env [(''with_split'', [PStr '':'']), (''should_map'', [])] (PStr elem)) (\<lambda>temp.
                  and_then (py_getitem temp (Index env ''USER_NAME'')) (\<lambda>n.
                  and_then (py_getitem temp (Index env ''USER_PLAYER_ID'')) (\<lambda>i.
                  and_then (py_getitem temp (Index env ''USER_ACCOUNT_ID'')) (\<lambda>a.
                  lib env ''ClassConverter.abstractuser_convert''
                    [PDict [(PStr ''name'', n), (PStr ''id'', i), (PStr ''account_id'', a)], client_obj c])))))
               resp) (\<lambda>ret.
          Return (PList ret))))"

subsection \<open>get_leaderboard (lines 349 to 375)\<close>

definition get_leaderboard :: "env \<Rightarrow> level \<Rightarrow> enum_member \<Rightarrow> client \<Rightarrow> pyval io" where
  "get_leaderboard env lvl strat c =
     Await
       \<lparr>route = ''GET_LEVEL_SCORES'',
        parameters =
          [(''create_new'', []), (''put_definer'', [PStr ''accountid'', PInt (client_account_id c)]),
           (''put_definer'', [PStr ''levelid'', level_obj_id lvl]),
           (''put_password'', [client_encodedpass c]), (''put_type'', [PInt (member_value strat)]),
           (''finish'', [])],
        error_codes = [(- 1, MissingAccess)], raise_errors = True, custom_base = None\<rparr>
       (\<lambda>resp.
          if \<not> truthy resp then Return (PList [])
          else
            attempt (py_split resp ''|'') (\<lambda>resp.
            attempt
              (map_err
                 (\<lambda>data.
                    and_then
                      (parse env
                         [(''with_split'', [PStr '':'']), (''add_ext'', [PDict [(PInt 101, level_obj_id lvl)]]),
                          (''should_map'', [])]
                         (PStr data)) (\<lambda>parsed.
                    lib env ''ClassConverter.level_record_convert'' [parsed, enum_obj strat, client_obj c]))
                 (filter is_not_empty resp)) (\<lambda>res.
            Return (PList res))))"

subsection \<open>get_top (lines 377 to 405)\<close>

definition get_top :: "env \<Rightarrow> enum_member \<Rightarrow> pyval \<Rightarrow> client \<Rightarrow> pyval io" where
  "get_top env strat count_arg c =
     (let needs_login = (member_value strat = 1 \<or> member_value strat = 2);
          wire = (if member_value strat \<noteq> 0 then lower (member_name strat) else ''top'');
          params = [(''create_new'', []), (''put_type'', [PStr wire]), (''put_count'', [count_arg])]
      in
      attempt
        (if needs_login then
           and_then (check_logged_obj env c ''get_top'') (\<lambda>u.
           Inr (params @
                [(''put_definer'', [PStr ''accountid'', PInt (client_account_id c)]),
                 (''put_password'', [client_encodedpass c])]))
         else Inr params) (\<lambda>params.
      Await
        \<lparr>route = ''GET_USER_TOP'', parameters = params @ [(''finish'', [])],
         error_codes = [(- 1, MissingAccess)], raise_errors = True, custom_base = None\<rparr>
        (\<lambda>resp.
           attempt (py_split resp ''|'') (\<lambda>resp.
           attempt
             (map_err
                (\<lambda>data.
                   and_then (parse env [(''with_split'', [PStr '':'']), (''should_map'', [])] (PStr data)) (\<lambda>parsed.
                   lib env ''ClassConverter.user_stats_convert'' [parsed, client_obj c]))
                (filter is_not_empty resp)) (\<lambda>res.
           Return (PList res))))))"

subsection \<open>load_save (lines 427 to 450)\<close>

text \<open>
  The body of the \<^verbatim>\<open>try\<close> block, with the client as it stands when the block is left:
  \<^verbatim>\<open>
  main, levels, *_ = resp.split(';')
  save_api = await api.save.from_string_async(main, levels, xor=False)
  save = await SaveParser.aio_parse(save_api.main.dump())
  client._upd('save_api', save_api)
  client._upd('save', save)
  \<close>
\<close>

definition load_save_try :: "env \<Rightarrow> pyval \<Rightarrow> client \<Rightarrow> (error + unit) \<times> client" where
  "load_save_try env resp c =
     (case py_split resp '';'' of
        Inl e \<Rightarrow> (Inl e, c)
      | Inr sections \<Rightarrow>
          (case sections of
             main # levels # rest \<Rightarrow>
               (case lib env ''api.save.from_string_async'' [PStr main, PStr levels, PBool False] of
                  Inl e \<Rightarrow> (Inl e, c)
                | Inr api \<Rightarrow>
                    (case and_then (lib env ''save_api.main.dump'' [api]) (\<lambda>dumped. lib env ''SaveParser.aio_parse'' [dumped]) of
                       Inl e \<Rightarrow> (Inl e, c)
                     | Inr parsed \<Rightarrow>
                         (case upd env ''save_api'' api c of
                            Inl e \<Rightarrow> (Inl e, c)
                          | Inr c1 \<Rightarrow>
                              (case upd env ''save'' parsed c1 of
                                 Inl e \<Rightarrow> (Inl e, c1)
                               | Inr c2 \<Rightarrow> (Inr (), c2)))))
           | _ \<Rightarrow> (Inl ValueError, c)))"

definition load_save :: "env \<Rightarrow> client \<Rightarrow> (pyval \<times> client) io" where
  "load_save env c =
     Await
       \<lparr>route = ''LOAD_DATA'',
        parameters =
          [(''create_new'', []), (''put_username'', [client_name c]),
           (''put_definer'', [PStr ''password'', client_password c]), (''finish_login'', [])],
        error_codes = [(- 11, MissingAccess)], raise_errors = True, custom_base = Some ''GD_URL''\<rparr>
       (\<lambda>resp.
          case load_save_try env resp c of
            (Inr u, c') \<Rightarrow> Return (PBool True, c')
          | (Inl e, c') \<Rightarrow> Return (PBool False, c'))"

subsection \<open>search_levels_on_page (lines 471 to 552)\<close>

definition level_of_record :: "env \<Rightarrow> call list \<Rightarrow> pyval list \<Rightarrow> pyval list \<Rightarrow> client \<Rightarrow> string \<Rightarrow> error + pyval" where
  "level_of_record env parser songs creators c lv =
     and_then (parse env parser (PStr lv)) (\<lambda>data.
     and_then (py_get data (Index env ''LEVEL_SONG_ID'')) (\<lambda>song_id.
     and_then
       (if \<not> truthy song_id
        then and_then (py_get data (Index env ''LEVEL_AUDIO_TRACK'')) (\<lambda>track. lib env ''Converter.to_normal_song'' [track])
        else Inr (utils_get env songs song_id)) (\<lambda>song.
     and_then (py_get data (Index env ''LEVEL_CREATOR_ID'')) (\<lambda>creator_id.
     and_then
       (let creator = utils_get env creators creator_id
        in if creator = PNone
           then lib env ''ClassConverter.abstractuser_convert''
                  [PDict [(PStr ''id'', creator_id), (PStr ''name'', PStr ''unknown''), (PStr ''account_id'', PInt 0)],
                   client_obj c]
           else Inr creator) (\<lambda>creator.
     lib env ''ClassConverter.level_convert'' [data, song, creator, client_obj c])))))"

definition search_levels_found :: "env \<Rightarrow> pyval \<Rightarrow> client \<Rightarrow> error + pyval" where
  "search_levels_found env resp c =
     and_then (py_split resp ''#'') (\<lambda>resp.
     let parser = [(''with_split'', [PStr ''~|~'']), (''should_map'', [])]
     in case take 3 resp of
          [lvdata, cdata, sdata] \<Rightarrow>
            and_then
              (map_err (\<lambda>s. and_then (parse env parser (PStr s)) (\<lambda>parsed. lib env ''ClassConverter.song_convert'' [parsed]))
                 (filter is_not_empty (split sdata ''~:~''))) (\<lambda>songs.
            and_then
              (map_err
                 (\<lambda>cr. lib env ''ClassConverter.abstractuser_convert''
                         [PDict (zip [PStr ''id'', PStr ''name'', PStr ''account_id''] (map PStr (split cr '':''))),
                          client_obj c])
                 (filter is_not_empty (split cdata ''|''))) (\<lambda>creators.
            let parser =
                  parser @
                  [(''with_split'', [PStr '':'']),
                   (''add_ext'', [PDict [(PInt 101, PInt 0), (PInt 102, PInt (- 1)), (PInt 103, PInt (- 1))]])]
            in and_then (map_err (level_of_record env parser songs creators c) (filter is_not_empty (split lvdata ''|'')))
                 (\<lambda>levels. Inr (PList levels))))
        | _ \<Rightarrow> Inl ValueError)"

definition search_levels_on_page ::
  "env \<Rightarrow> int \<Rightarrow> pyval \<Rightarrow> filters option \<Rightarrow> user_arg \<Rightarrow> int option \<Rightarrow> bool \<Rightarrow> client \<Rightarrow> pyval io" where
  "search_levels_on_page env page query filters_arg user_arg gauntlet raise c =
     (let fltrs = (case filters_arg of None \<Rightarrow> setup_empty | Some f \<Rightarrow> f);
          params =
            [(''create_new'', []), (''put_definer'', [PStr ''search'', query]), (''put_page'', [PInt page]),
             (''put_total'', [PInt 0]), (''put_filters'', [filters_value fltrs])];
          codes = [(- 1, MissingAccess)];
          auth =
            [(''put_definer'', [PStr ''accountid'', PInt (client_account_id c)]),
             (''put_password'', [client_encodedpass c])]
      in
      attempt
        (if strategy fltrs = BY_USER then
           (case user_arg of
              NoUser \<Rightarrow>
                and_then (check_logged_obj env c ''search_levels_on_page(...)'') (\<lambda>u.
                Inr (params @ auth @ [(''put_local'', [PInt 1])] @
                     [(''put_definer'', [PStr ''search'', PInt (client_id c)])]))
            | UserInt i \<Rightarrow> Inr (params @ [(''put_definer'', [PStr ''search'', PInt i])])
            | UserObj u \<Rightarrow> Inr (params @ [(''put_definer'', [PStr ''search'', user_id u])]))
         else if strategy fltrs = FRIENDS then
           and_then (check_logged_obj env c ''search_levels_on_page(..., client=client)'') (\<lambda>u.
           Inr (params @ auth))
         else Inr params) (\<lambda>params.
      let params = (case gauntlet of None \<Rightarrow> params | Some g \<Rightarrow> params @ [(''put_definer'', [PStr ''gauntlet'', PInt g])])
      in
      Await
        \<lparr>route = ''LEVEL_SEARCH'', parameters = params @ [(''finish'', [])],
         error_codes = codes, raise_errors = raise, custom_base = None\<rparr>
        (\<lambda>resp.
           if \<not> truthy resp then Return (PList [])
           else attempt (search_levels_found env resp c) Return)))"

subsection \<open>rate_demon (lines 624 to 644)\<close>

text \<open>\<^verbatim>\<open>isinstance(resp, int) and resp > 0\<close>; a bool is an int in Python.\<close>

fun positive_int :: "pyval \<Rightarrow> bool" where
  "positive_int (PInt i) = (0 < i)"
| "positive_int (PBool b) = b"
| "positive_int v = False"

definition rate_demon :: "level \<Rightarrow> enum_member \<Rightarrow> bool \<Rightarrow> client \<Rightarrow> pyval io" where
  "rate_demon lvl demon_rating mod_arg c =
     (let rating_level = member_value demon_rating
      in
      Await
        \<lparr>route = ''RATE_LEVEL_DEMON'',
         parameters =
           [(''create_new'', []), (''put_definer'', [PStr ''accountid'', PInt (client_account_id c)]),
            (''put_password'', [client_encodedpass c]), (''put_definer'', [PStr ''levelid'', level_obj_id lvl]),
            (''put_definer'', [PStr ''rating'', PInt rating_level]),
            (''put_mode'', [PInt (if mod_arg then 1 else 0)]), (''finish_mod'', [])],
         error_codes = [(- 2, MissingAccess)], raise_errors = True, custom_base = None\<rparr>
        (\<lambda>resp.
           if \<not> truthy resp then Return (PBool False)
           else if positive_int resp then Return (PBool True)
           else Return PNone))"

subsection \<open>get_page_messages (lines 696 to 727)\<close>

definition get_page_messages :: "env \<Rightarrow> string \<Rightarrow> int \<Rightarrow> bool \<Rightarrow> client \<Rightarrow> pyval io" where
  "get_page_messages env sent_or_inbox page raise c =
     (if \<not> (sent_or_inbox = ''inbox'' \<or> sent_or_inbox = ''sent'') then Raise AssertionError
      else
        let inbox = (if sent_or_inbox \<noteq> ''sent'' then 0 else 1)
        in
        Await
          \<lparr>route = ''GET_PRIVATE_MESSAGES'',
           parameters =
             [(''create_new'', []), (''put_definer'', [PStr ''accountid'', PInt (client_account_id c)]),
              (''put_password'', [client_encodedpass c]), (''put_page'', [PInt page]),
              (''put_total'', [PInt 0]), (''get_sent'', [PInt inbox]), (''finish'', [])],
           error_codes = [(- 1, MissingAccess), (- 2, NothingFound ''gd.Message'')],
           raise_errors = raise, custom_base = None\<rparr>
          (\<lambda>resp.
             attempt
               (parse env
                  [(''split'', [PStr ''#'']), (''take'', [PInt 0]), (''check_empty'', []), (''split'', [PStr ''|''])]
                  resp) (\<lambda>resp.
             if resp = PNone then Return (PList [])
             else
               attempt (py_iter resp) (\<lambda>elems.
               attempt
                 (map_err
                    (\<lambda>elem.
                       and_then (parse env [(''with_split'', [PStr '':'']), (''should_map'', [])] elem) (\<lambda>parsed.
                       and_then (lib env ''Client.get_parse_dict'' [client_obj c]) (\<lambda>d.
                       lib env ''ClassConverter.message_convert'' [parsed, d, client_obj c])))
                    elems) (\<lambda>res.
               Return (PList res))))))"

subsection \<open>read_message (lines 845 to 863)\<close>

text \<open>
  \<^verbatim>\<open>
  resp = await http.request(Route.READ_PRIVATE_MESSAGE, parameters, error_codes=codes)
  resp = Parser().with_split(':').should_map()
  ret = Coder.decode(type='message', string=resp.get(Index.MESSAGE_BODY))
  msg._body = ret
  return ret
  \<close>
  The second assignment binds \<^verbatim>\<open>resp\<close> to the configured Parser itself. The result is
  the returned value with the message as the call leaves it.
\<close>

definition read_message :: "env \<Rightarrow> message \<Rightarrow> client \<Rightarrow> (pyval \<times> message) io" where
  "read_message env msg c =
     Await
       \<lparr>route = ''READ_PRIVATE_MESSAGE'',
        parameters =
          [(''create_new'', []), (''put_definer'', [PStr ''accountid'', PInt (client_account_id c)]),
           (''put_definer'', [PStr ''messageid'', message_id msg]),
           (''put_is_sender'', [PStr (lower (member_name (message_type msg)))]),
           (''put_password'', [client_encodedpass c]), (''finish'', [])],
        error_codes = [(- 1, MissingAccess)], raise_errors = True, custom_base = None\<rparr>
       (\<lambda>resp.
          let resp = Parser [(''with_split'', [PStr '':'']), (''should_map'', [])]
          in
          attempt (py_get resp (Index env ''MESSAGE_BODY'')) (\<lambda>encoded.
          attempt (lib env ''Coder.decode'' [PStr ''message'', encoded]) (\<lambda>ret.
          Return (ret, msg\<lparr>message_body := ret\<rparr>))))"

subsection \<open>get_page_map_packs (lines 890 to 908)\<close>

definition get_page_map_packs :: "env \<Rightarrow> int \<Rightarrow> bool \<Rightarrow> client \<Rightarrow> pyval io" where
  "get_page_map_packs env page raise c =
     Await
       \<lparr>route = ''GET_MAP_PACKS'',
        parameters = [(''create_new'', []), (''put_page'', [PInt page]), (''finish'', [])],
        error_codes = [], raise_errors = True, custom_base = None\<rparr>
       (\<lambda>resp.
          attempt
            (parse env
               [(''split'', [PStr ''#'']), (''take'', [PInt 0]), (''split'', [PStr ''|'']),
                (''check_empty'', []), (''should_map'', [])]
               resp) (\<lambda>resp.
          if resp = PNone then (if raise then Raise (NothingFound ''gd.MapPack'') else Return (PList []))
          else
            attempt (py_iter resp) (\<lambda>elems.
            attempt
              (map_err
                 (\<lambda>elem.
                    and_then (parse env [(''with_split'', [PStr '':'']), (''should_map'', [])] elem) (\<lambda>parsed.
                    lib env ''ClassConverter.map_pack_convert'' [parsed, client_obj c]))
                 elems) (\<lambda>res.
            Return (PList res)))))"

subsection \<open>get_page_friend_requests (lines 919 to 949)\<close>

definition get_page_friend_requests :: "env \<Rightarrow> string \<Rightarrow> int \<Rightarrow> bool \<Rightarrow> client \<Rightarrow> pyval io" where
  "get_page_friend_requests env sent_or_inbox page raise c =
     (let inbox = (if sent_or_inbox = ''sent'' then 1 else 0)
      in
      Await
        \<lparr>route = ''GET_FRIEND_REQUESTS'',
         parameters =
           [(''create_new'', []), (''put_definer'', [PStr ''accountid'', PStr (str_int (client_account_id c))]),
            (''put_password'', [client_encodedpass c]), (''put_page'', [PInt page]),
            (''put_total'', [PInt 0]), (''get_sent'', [PInt inbox]), (''finish'', [])],
         error_codes = [(- 1, MissingAccess), (- 2, NothingFound ''gd.FriendRequest'')],
         raise_errors = raise, custom_base = None\<rparr>
        (\<lambda>resp.
           attempt
             (parse env
                [(''split'', [PStr ''#'']), (''take'', [PInt 0]), (''split'', [PStr ''|'']), (''check_empty'', [])]
                resp) (\<lambda>resp.
           if resp = PNone then Return (PList [])
           else
             attempt (py_iter resp) (\<lambda>elems.
             attempt
               (map_err
                  (\<lambda>elem.
                     and_then
                       (parse env
                          [(''split'', [PStr '':'']), (''add_ext'', [PDict [(PInt 101, PInt inbox)]]),
                           (''should_map'', [])]
                          elem) (\<lambda>parsed.
                     and_then (lib env ''Client.get_parse_dict'' [client_obj c]) (\<lambda>d.
                     lib env ''ClassConverter.request_convert'' [parsed, d, client_obj c])))
                  elems) (\<lambda>res.
             Return (PList res))))))"

subsection \<open>retrieve_page_comments (lines 964 to 1012)\<close>

definition retrieve_page_comments ::
  "env \<Rightarrow> user \<Rightarrow> string \<Rightarrow> int \<Rightarrow> bool \<Rightarrow> enum_member \<Rightarrow> client \<Rightarrow> pyval io" where
  "retrieve_page_comments env usr type_arg page raise strat c =
     (if \<not> page \<ge> 0 then Raise AssertionError
      else if \<not> (type_arg = ''profile'' \<or> type_arg = ''level'') then Raise AssertionError
      else
        let is_level = (type_arg = ''level'');
            typeid = (if is_level then 0 else 1);
            definer = (if is_level then ''userid'' else ''accountid'');
            selfid = (if is_level then user_id usr else user_account_id usr);
            route_name = (if is_level then ''GET_COMMENT_HISTORY'' else ''GET_ACC_COMMENTS'');
            parser =
              [(''add_ext'', [PDict [(PInt 101, PInt typeid)]]), (''should_map'', [])] @
              (if is_level then [(''split'', [PStr '':'']), (''take'', [PInt 0]), (''split'', [PStr ''~''])]
               else [(''with_split'', [PStr ''~''])]);
            param_obj =
              [(''create_new'', []), (''put_definer'', [PStr definer, selfid]), (''put_page'', [PInt page]),
               (''put_total'', [PInt 0])] @
              (if is_level then [(''put_mode'', [PInt (member_value strat)])] else [])
        in
        Await
          \<lparr>route = route_name, parameters = param_obj @ [(''finish'', [])],
           error_codes = [(- 1, MissingAccess)], raise_errors = raise, custom_base = None\<rparr>
          (\<lambda>resp.
             if \<not> truthy resp then Return (PList [])
             else
               attempt (py_split resp ''#'') (\<lambda>sections.
               attempt (py_index sections 0) (\<lambda>resp.
               if resp = []
               then (if raise then Raise (NothingFound ''gd.Comment'') else Return (PList []))
               else
                 attempt
                   (map_err
                      (\<lambda>elem.
                         and_then (parse env parser (PStr elem)) (\<lambda>parsed.
                         lib env ''ClassConverter.comment_convert'' [parsed, user_dict_for_parse usr, client_obj c]))
                      (split resp ''|'')) (\<lambda>res.
                 Return (PList res))))))"

section \<open>A sample environment\<close>

text \<open>
  Concrete collaborators for the concrete cases below. The parser follows properties 5
  and 6 of section 8 of the specification on the two shapes these cases use: under
  \<^verbatim>\<open>check_empty\<close> the empty reply is the no-result sentinel, and any other text is read
  as the flat \<^verbatim>\<open>key:value:key:value\<close> record of its first \<^verbatim>\<open>#\<close> section, numeric tokens
  as integers. A library call answers with an object that records the call. The index
  constants have sample values.
\<close>

definition coerce :: "string \<Rightarrow> pyval" where
  "coerce token = (if token \<noteq> [] \<and> list_all ascii_digit token then PInt (int (decimal token)) else PStr token)"

fun pairwise :: "'a list \<Rightarrow> ('a \<times> 'a) list" where
  "pairwise (k # v # rest) = (k, v) # pairwise rest"
| "pairwise rest = []"

definition sample_parse :: "call list \<Rightarrow> pyval \<Rightarrow> error + pyval" where
  "sample_parse chain raw =
     (case raw of
        PStr s \<Rightarrow>
          if s = [] \<and> (''check_empty'', []) \<in> set chain then Inr PNone
          else (case split s ''#'' of
                  first # rest \<Rightarrow> Inr (PDict (pairwise (map coerce (split first '':''))))
                | [] \<Rightarrow> Inr (PDict []))
      | _ \<Rightarrow> Inl AttributeError)"

definition sample_Index :: "string \<Rightarrow> pyval" where
  "sample_Index n =
     (case map_of
        [(''USER_NAME'', 1), (''USER_PLAYER_ID'', 2), (''USER_ICON'', 9), (''USER_ICON_TYPE'', 14),
         (''USER_ACCOUNT_ID'', 16), (''LEVEL_ID'', 1), (''LEVEL_AUDIO_TRACK'', 12),
         (''LEVEL_SONG_ID'', 35), (''LEVEL_CREATOR_ID'', 6), (''MESSAGE_BODY'', 5)] n of
        Some i \<Rightarrow> PInt i
      | None \<Rightarrow> PNone)"

definition sample_upd :: "string \<Rightarrow> pyval \<Rightarrow> client \<Rightarrow> error + client" where
  "sample_upd attr v c =
     (if attr = ''save_api'' then Inr (c\<lparr>client_save_api := v\<rparr>)
      else if attr = ''save'' then Inr (c\<lparr>client_save := v\<rparr>)
      else Inl AttributeError)"

definition sample_env :: env where
  "sample_env =
     \<lparr>parse = sample_parse,
      lib = (\<lambda>f args. Inr (PObj f args)),
      Index = sample_Index,
      check_logged_obj =
        (\<lambda>c func_name. if client_encodedpass c = PNone then Inl (NotLoggedError func_name) else Inr ()),
      upd = sample_upd\<rparr>"

definition logged_client :: client where
  "logged_client =
     \<lparr>client_account_id = 71, client_id = 16, client_name = PStr ''player'',
      client_password = PStr ''secret'', client_encodedpass = PStr ''c2VjcmV0'',
      client_save_api = PNone, client_save = PNone\<rparr>"

definition anonymous_client :: client where
  "anonymous_client =
     \<lparr>client_account_id = 0, client_id = 0, client_name = PNone,
      client_password = PNone, client_encodedpass = PNone,
      client_save_api = PNone, client_save = PNone\<rparr>"

section \<open>Properties of run_many\<close>



section \<open>Properties of the password field\<close>

lemma nat_digits_small: "n < 10 \<Longrightarrow> nat_digits n = [digit_char n]"
  by (simp add: nat_digits.simps)

lemma nat_digits_big: "\<not> n < 10 \<Longrightarrow> nat_digits n = nat_digits (n div 10) @ [digit_char (n mod 10)]"
  by (subst nat_digits.simps) simp

lemma digit_char_of: "d < 10 \<Longrightarrow> of_char (digit_char d) = 48 + d"
proof -
  assume "d < 10"
  then have "d = 0 \<or> d = 1 \<or> d = 2 \<or> d = 3 \<or> d = 4 \<or> d = 5 \<or> d = 6 \<or> d = 7 \<or> d = 8 \<or> d = 9"
    by arith
  then show ?thesis
    by (elim disjE) (simp_all add: digit_char_def)
qed

lemma ascii_digit_char: "d < 10 \<Longrightarrow> ascii_digit (digit_char d)"
  by (simp add: ascii_digit_def digit_char_of)

lemma digit_val_char: "d < 10 \<Longrightarrow> digit_val (digit_char d) = d"
  by (simp add: digit_val_def digit_char_of)

lemma nat_digits_ascii: "list_all ascii_digit (nat_digits n)"
proof (induction n rule: nat_digits.induct)
  case (1 n)
  show ?case
  proof (cases "n < 10")
    case True
    then show ?thesis by (simp add: nat_digits_small ascii_digit_char)
  next
    case False
    with 1 show ?thesis by (simp add: nat_digits_big ascii_digit_char)
  qed
qed

lemma nat_digits_nonempty: "nat_digits n \<noteq> []"
  by (cases "n < 10") (simp_all add: nat_digits_small nat_digits_big)

text \<open>Reading back the digits \<^verbatim>\<open>str\<close> writes gives the number.\<close>

lemma decimal_nat_digits: "decimal (nat_digits n) = n"
proof (induction n rule: nat_digits.induct)
  case (1 n)
  show ?case
  proof (cases "n < 10")
    case True
    then show ?thesis by (simp add: nat_digits_small decimal_def digit_val_char)
  next
    case False
    with 1 have "decimal (nat_digits (n div 10)) = n div 10" by simp
    with False show ?thesis by (simp add: nat_digits_big decimal_def digit_val_char)
  qed
qed

lemma digits_value_foldl:
  "list_all ascii_digit s \<Longrightarrow> s \<noteq> [] \<or> prev \<Longrightarrow>
   digits_value prev acc s = Some (foldl (\<lambda>a c. 10 * a + digit_val c) acc s)"
  by (induction s arbitrary: prev acc) auto

lemma ascii_digit_not_space: "ascii_digit c \<Longrightarrow> \<not> is_space c"
  by (auto simp: ascii_digit_def is_space_def)

lemma dropWhile_digits: "list_all ascii_digit s \<Longrightarrow> dropWhile is_space s = s"
  by (cases s) (simp_all add: ascii_digit_not_space)

lemma strip_digits: "list_all ascii_digit s \<Longrightarrow> strip s = s"
proof -
  assume digits: "list_all ascii_digit s"
  then have "list_all ascii_digit (rev s)" by (simp add: list_all_iff)
  then have "dropWhile is_space (rev s) = rev s" by (rule dropWhile_digits)
  with digits show ?thesis by (simp add: strip_def dropWhile_digits)
qed

lemma ascii_digit_not_sign: "ascii_digit c \<Longrightarrow> c \<noteq> CHR ''-'' \<and> c \<noteq> CHR ''+''"
  by (auto simp: ascii_digit_def)

lemma py_int_digits: "list_all ascii_digit s \<Longrightarrow> s \<noteq> [] \<Longrightarrow> py_int s = Some (int (decimal s))"
proof -
  assume digits: "list_all ascii_digit s" and nonempty: "s \<noteq> []"
  from nonempty obtain c cs where s: "s = c # cs" by (cases s) auto
  with digits have sign: "c \<noteq> CHR ''-''" "c \<noteq> CHR ''+''" using ascii_digit_not_sign by auto
  have "digits_value False 0 s = Some (decimal s)"
    using digits nonempty by (simp add: digits_value_foldl decimal_def)
  with digits s sign show ?thesis by (simp add: py_int_def strip_digits)
qed

lemma isdigit_ascii: "list_all ascii_digit s \<Longrightarrow> s \<noteq> [] \<Longrightarrow> isdigit s"
  by (simp add: isdigit_def list_all_iff)

lemma pwd_none: "upload_level_pwd copyable NoPassword = Inr (if copyable then 1 else 0)"
  by (simp add: upload_level_pwd_def isdigit_def ascii_digit_def superscript_digit_def)

lemma pwd_int_small:
  "0 \<le> n \<Longrightarrow> n < 1000000 \<Longrightarrow> upload_level_pwd copyable (IntPassword n) = Inr (1000000 + n)"
  by (simp add: upload_level_pwd_def str_int_def isdigit_ascii py_int_digits nat_digits_ascii
      nat_digits_nonempty decimal_nat_digits)

lemma pwd_int_big: "1000000 \<le> n \<Longrightarrow> upload_level_pwd copyable (IntPassword n) = Inr 0"
  by (simp add: upload_level_pwd_def str_int_def isdigit_ascii py_int_digits nat_digits_ascii
      nat_digits_nonempty decimal_nat_digits)

lemma pwd_int_negative: "n < 0 \<Longrightarrow> upload_level_pwd copyable (IntPassword n) = Inr 0"
  by (simp add: upload_level_pwd_def str_int_def isdigit_def ascii_digit_def superscript_digit_def)

lemma pwd_str_digits:
  "list_all ascii_digit s \<Longrightarrow> s \<noteq> [] \<Longrightarrow>
   upload_level_pwd copyable (StrPassword s) =
     Inr (if int (decimal s) < 1000000 then 1000000 + int (decimal s) else 0)"
  by (simp add: upload_level_pwd_def isdigit_ascii py_int_digits int_of_str_def)

lemma pwd_str_other: "\<not> isdigit s \<Longrightarrow> upload_level_pwd copyable (StrPassword s) = Inr 0"
  by (simp add: upload_level_pwd_def)

lemmas pwd_eval =
  upload_level_pwd_def int_of_str_def str_int_def nat_digits_small nat_digits_big digit_char_def isdigit_def
  ascii_digit_def superscript_digit_def py_int_def strip_def is_space_def digit_val_def decimal_def

text \<open>
  The password \<open>1000000\<close> is purely numeric, and the field is \<open>0\<close>, not
  \<open>1000000 + 1000000\<close>: the test \<^verbatim>\<open>int(check) < add\<close> of line 282 keeps a number of
  seven digits or more out of the sum.
\<close>

theorem upload_level_pwd_numeric_counterexample:
  "upload_level_pwd True (IntPassword 1000000) = Inr 0
   \<and> upload_level_pwd True (IntPassword 1000000) \<noteq> Inr (1000000 + 1000000)
   \<and> upload_level_pwd False (StrPassword ''1000000'') = Inr 0"
  by (simp add: pwd_eval)

text \<open>
  C3, amended. The password field is \<open>1000000\<close> plus the number when the password is
  an int from 0 to 999999, or a string of the digits 0 to 9 that writes a number below
  1000000. Without a password it is \<open>1\<close> for a copyable level and \<open>0\<close> otherwise.
  It is \<open>0\<close> in the other cases: a negative int, a number of 1000000 or more, a
  string that \<^verbatim>\<open>isdigit\<close> refuses. In particular \<^verbatim>\<open>copyable=True, password=None\<close> gives
  \<open>1\<close>, \<^verbatim>\<open>copyable=False, password=None\<close> gives \<open>0\<close>, and \<^verbatim>\<open>password=42\<close> gives
  \<open>1000042\<close>.
\<close>

theorem upload_level_pwd_amended:
  "upload_level_pwd copyable NoPassword = Inr (if copyable then 1 else 0)
   \<and> (0 \<le> n \<and> n < 1000000 \<longrightarrow> upload_level_pwd copyable (IntPassword n) = Inr (1000000 + n))
   \<and> (n < 0 \<or> 1000000 \<le> n \<longrightarrow> upload_level_pwd copyable (IntPassword n) = Inr 0)
   \<and> (s \<noteq> [] \<and> list_all ascii_digit s \<longrightarrow>
        upload_level_pwd copyable (StrPassword s) =
          Inr (if int (decimal s) < 1000000 then 1000000 + int (decimal s) else 0))
   \<and> (\<not> isdigit s \<longrightarrow> upload_level_pwd copyable (StrPassword s) = Inr 0)
   \<and> upload_level_pwd True NoPassword = Inr 1
   \<and> upload_level_pwd False NoPassword = Inr 0
   \<and> upload_level_pwd copyable (IntPassword 42) = Inr 1000042"
  using pwd_none [of copyable] pwd_none [of True] pwd_none [of False]
    pwd_int_small [of n copyable] pwd_int_small [of 42 copyable]
    pwd_int_big [of n copyable] pwd_int_negative [of n copyable]
    pwd_str_digits [of s copyable] pwd_str_other [of s copyable]
  by auto

theorem upload_level_pwd_amended_witness:
  "upload_level_pwd True (IntPassword 999999) = Inr 1999999
   \<and> upload_level_pwd True (IntPassword (- 5)) = Inr 0
   \<and> upload_level_pwd False (StrPassword ''0042'') = Inr 1000042
   \<and> upload_level_pwd True (StrPassword ''12a'') = Inr 0"
  using upload_level_pwd_amended [of True 999999 "''0042''"]
    upload_level_pwd_amended [of True "- 5" "''12a''"]
    upload_level_pwd_amended [of False 0 "''0042''"]
  by (simp add: isdigit_def ascii_digit_def superscript_digit_def decimal_def digit_val_def)

text \<open>
  A string of superscript digits passes \<^verbatim>\<open>isdigit\<close> and fails in \<^verbatim>\<open>int\<close>: the
  \<^verbatim>\<open>ValueError\<close> leaves \<^verbatim>\<open>upload_level\<close>.
\<close>

lemma upload_level_pwd_superscript:
  "upload_level_pwd True (StrPassword [CHR 0xB2]) = Inl ValueError"
  by (simp add: pwd_eval)

section \<open>Properties of the route table\<close>

lemma Route_attr_GET_USER_LIST: "Route_attr ''GET_USER_LIST'' = Inl AttributeError"
  by (simp add: Route_attr_def Route_def)

lemma Route_attr_GET_LEVEL_SCORES: "Route_attr ''GET_LEVEL_SCORES'' = Inl AttributeError"
  by (simp add: Route_attr_def Route_def)

lemma undefined_session_routes:
  "[r \<leftarrow> remdups (map snd session_routes). map_of Route r = None] =
     [''NEWGROUNDS_SONG_LISTEN'', ''UPLOAD_LEVEL'', ''GET_USER_LIST'', ''GET_LEVEL_SCORES'',
      ''GET_USER_TOP'', ''LOAD_DATA'', ''GD_URL'', ''SAVE_DATA'', ''REPORT_LEVEL'', ''DELETE_LEVEL'',
      ''UPDATE_LEVEL_DESC'', ''RATE_LEVEL_STARS'', ''RATE_LEVEL_DEMON'', ''SUGGEST_LEVEL_STARS'',
      ''LIKE_ITEM'', ''SEND_REQUEST'', ''READ_REQUEST'', ''GET_GAUNTLETS'', ''GET_MAP_PACKS'',
      ''GET_ACC_COMMENTS'', ''UNBLOCK_USER'', ''BLOCK_USER'', ''REMOVE_FRIEND'', ''UPDATE_USER_SCORE'']"
  by code_simp

lemma route_literals_are_backend_paths: "map snd Route = backend_paths"
  by (simp add: Route_def backend_paths_def)

text \<open>
  C1. The claim asks that every \<^verbatim>\<open>Route.NAME\<close> of \<^verbatim>\<open>session.py\<close> be defined in the
  class \<^verbatim>\<open>Route\<close>, \<^verbatim>\<open>GET_USER_LIST\<close> and \<^verbatim>\<open>GET_LEVEL_SCORES\<close> among them. The class
  defines neither: \<^verbatim>\<open>get_user_list\<close> and \<^verbatim>\<open>get_leaderboard\<close> raise
  \<^verbatim>\<open>AttributeError\<close> for every argument and every server, before any request goes out.
  Twenty-two more names that \<^verbatim>\<open>session.py\<close> evaluates are undefined as well. The
  literals the class does define are the backend paths of section 6, letter for letter.
\<close>

theorem session_routes_missing_from_Route:
  "exec server (get_user_list env type_arg c) = (Inl AttributeError, [])
   \<and> exec server (get_leaderboard env lvl strat c) = (Inl AttributeError, [])
   \<and> [r \<leftarrow> remdups (map snd session_routes). map_of Route r = None] =
       [''NEWGROUNDS_SONG_LISTEN'', ''UPLOAD_LEVEL'', ''GET_USER_LIST'', ''GET_LEVEL_SCORES'',
        ''GET_USER_TOP'', ''LOAD_DATA'', ''GD_URL'', ''SAVE_DATA'', ''REPORT_LEVEL'', ''DELETE_LEVEL'',
        ''UPDATE_LEVEL_DESC'', ''RATE_LEVEL_STARS'', ''RATE_LEVEL_DEMON'', ''SUGGEST_LEVEL_STARS'',
        ''LIKE_ITEM'', ''SEND_REQUEST'', ''READ_REQUEST'', ''GET_GAUNTLETS'', ''GET_MAP_PACKS'',
        ''GET_ACC_COMMENTS'', ''UNBLOCK_USER'', ''BLOCK_USER'', ''REMOVE_FRIEND'', ''UPDATE_USER_SCORE'']
   \<and> map snd Route = backend_paths"
proof -
  have "exec server (get_user_list env type_arg c) = (Inl AttributeError, [])"
    by (simp add: exec_def get_user_list_def resolve_def Route_attr_GET_USER_LIST)
  moreover have "exec server (get_leaderboard env lvl strat c) = (Inl AttributeError, [])"
    by (simp add: exec_def get_leaderboard_def resolve_def Route_attr_GET_LEVEL_SCORES)
  ultimately show ?thesis
    using undefined_session_routes route_literals_are_backend_paths by simp
qed

section \<open>Evaluating split and int on literals\<close>

lemma split_from_end: "split_from sep acc [] = [rev acc]"
  by (simp add: split_from.simps)

lemma split_from_sep:
  "sep \<noteq> [] \<Longrightarrow> take (length sep) (x # xs) = sep \<Longrightarrow>
   split_from sep acc (x # xs) = rev acc # split_from sep [] (drop (length sep) (x # xs))"
  by (subst split_from.simps) simp

lemma split_from_char:
  "sep = [] \<or> take (length sep) (x # xs) \<noteq> sep \<Longrightarrow>
   split_from sep acc (x # xs) = split_from sep (x # acc) xs"
  by (subst split_from.simps) auto

lemmas split_eval = split_def split_from_end split_from_sep split_from_char

lemmas int_eval = int_of_str_def py_int_def strip_def is_space_def ascii_digit_def digit_val_def

section \<open>Properties of read_message\<close>

text \<open>
  C6. The claim asks that \<^verbatim>\<open>read_message\<close> parse the reply, decode the body field,
  cache it on the message and return it. Line 857 builds the parser and never calls
  \<^verbatim>\<open>parse\<close>: \<^verbatim>\<open>resp\<close> becomes the Parser object, \<^verbatim>\<open>resp.get\<close> raises
  \<^verbatim>\<open>AttributeError\<close>, and so does \<^verbatim>\<open>read_message\<close> for every reply the HTTP layer
  hands back, whatever the reply holds; nothing is decoded, cached or returned.
\<close>

theorem read_message_raises_for_every_reply:
  "respond (read_message env msg c) body =
     (if body = PInt (- 1) then Raise MissingAccess else Raise AttributeError)
   \<and> respond (read_message env msg c) (PStr ''6:71:3:16:1:1482:4:SGk=:5:aGVsbG8='') = Raise AttributeError"
proof -
  have "respond (read_message env msg c) body =
     (if body = PInt (- 1) then Raise MissingAccess else Raise AttributeError)" for body
    by (cases body) (simp_all add: read_message_def Let_def http_request_def Parser_def)
  then show ?thesis by simp
qed

section \<open>Properties of search_levels_on_page\<close>

text \<open>
  C8. When \<^verbatim>\<open>check_logged_obj\<close> refuses the client, \<^verbatim>\<open>search_levels_on_page\<close> with the
  strategy BY_USER and no user, and with the strategy FRIENDS and any user, raises what
  the check raises, and no request goes out.
\<close>

theorem search_levels_on_page_requires_login:
  "(strategy f = BY_USER \<and> check_logged_obj env c ''search_levels_on_page(...)'' = Inl e \<longrightarrow>
      search_levels_on_page env page query (Some f) NoUser gauntlet raise c = Raise e
      \<and> exec server (search_levels_on_page env page query (Some f) NoUser gauntlet raise c) = (Inl e, []))
   \<and> (strategy f = FRIENDS \<and> check_logged_obj env c ''search_levels_on_page(..., client=client)'' = Inl e \<longrightarrow>
      search_levels_on_page env page query (Some f) usr gauntlet raise c = Raise e
      \<and> exec server (search_levels_on_page env page query (Some f) usr gauntlet raise c) = (Inl e, []))"
  by (simp add: search_levels_on_page_def Let_def exec_def)

theorem search_levels_on_page_requires_login_witness:
  "search_levels_on_page sample_env 0 (PStr ''bloodbath'')
       (Some \<lparr>strategy = BY_USER, filters_value = PObj ''Filters'' []\<rparr>) NoUser None True anonymous_client
     = Raise (NotLoggedError ''search_levels_on_page(...)'')
   \<and> exec (\<lambda>url params. PStr [])
       (search_levels_on_page sample_env 0 (PStr ''bloodbath'')
          (Some \<lparr>strategy = FRIENDS, filters_value = PObj ''Filters'' []\<rparr>) (UserInt 16) None True anonymous_client)
     = (Inl (NotLoggedError ''search_levels_on_page(..., client=client)''), [])"
  using search_levels_on_page_requires_login
      [where f = "\<lparr>strategy = BY_USER, filters_value = PObj ''Filters'' []\<rparr>" and env = sample_env
         and c = anonymous_client and e = "NotLoggedError ''search_levels_on_page(...)''" and page = 0
         and query = "PStr ''bloodbath''" and gauntlet = None and raise = True]
    search_levels_on_page_requires_login
      [where f = "\<lparr>strategy = FRIENDS, filters_value = PObj ''Filters'' []\<rparr>" and env = sample_env
         and c = anonymous_client and e = "NotLoggedError ''search_levels_on_page(..., client=client)''"
         and page = 0 and query = "PStr ''bloodbath''" and gauntlet = None and raise = True
         and server = "\<lambda>url params. PStr []" and usr = "UserInt 16"]
  by (simp add: sample_env_def anonymous_client_def exec_def)

section \<open>Properties of get_timely\<close>

lemma get_timely_daily:
  "s \<noteq> [] \<Longrightarrow> map_err int_of_str (split s ''|'') = Inr (num # cooldown # rest) \<Longrightarrow>
   respond (get_timely env ''daily'' c) (PStr s) =
     bind_io (get_level env (- 1) (1, num mod 100000, cooldown) c)
       (\<lambda>level. attempt (lib env ''attach_client'' [level, client_obj c]) Return)"
  by (simp add: get_timely_def http_request_def Let_def)

lemma get_timely_weekly:
  "s \<noteq> [] \<Longrightarrow> map_err int_of_str (split s ''|'') = Inr (num # cooldown # rest) \<Longrightarrow>
   respond (get_timely env ''weekly'' c) (PStr s) =
     bind_io (get_level env (- 2) (2, num mod 100000, cooldown) c)
       (\<lambda>level. attempt (lib env ''attach_client'' [level, client_obj c]) Return)"
  by (simp add: get_timely_def http_request_def Let_def)

lemma fields_of_5_300_7: "map_err int_of_str (split ''5|300|7'' ''|'') = Inr [5, 300, 7]"
  by (simp add: split_eval int_eval)

lemma get_level_pending:
  "- 2 \<le> level_id \<Longrightarrow>
   pending (get_level env level_id (t, n, cd) c) =
     Some \<lparr>route = ''DOWNLOAD_LEVEL'',
           parameters = [(''create_new'', []), (''put_definer'', [PStr ''levelid'', PInt level_id]), (''finish'', [])],
           error_codes = [(- 1, MissingAccess)], raise_errors = True, custom_base = None\<rparr>"
  by (simp add: get_level_def Let_def)

lemma get_level_respond:
  "- 2 \<le> level_id \<Longrightarrow>
   respond (get_level env level_id (t, n, cd) c) (PStr body) =
     attempt
       (parse env
          [(''split'', [PStr ''#'']), (''take'', [PInt 0]), (''split'', [PStr '':'']),
           (''add_ext'', [PDict [(PInt 101, PInt t), (PInt 102, PInt n), (PInt 103, PInt cd)]]),
           (''should_map'', [])]
          (PStr body))
       (\<lambda>level_data. get_level_found env level_data [(- 1, MissingAccess)] c)"
  by (simp add: get_level_def Let_def http_request_def)

text \<open>
  C7. On a reply \<open>number|cooldown|...\<close> of integers, \<^verbatim>\<open>get_timely\<close> goes on as
  \<^verbatim>\<open>get_level(-(w + 1), (w + 1, number mod 100000, cooldown))\<close>, where \<open>w\<close> is \<open>0\<close>
  for \<^verbatim>\<open>'daily'\<close> and \<open>1\<close> for \<^verbatim>\<open>'weekly'\<close>, and attaches the client to the level it
  gets. \<^verbatim>\<open>get_level\<close> asks for that level id and has the parser add the timetuple as
  the fields 101, 102 and 103. The reply \<^verbatim>\<open>5|300|7\<close> to \<^verbatim>\<open>get_timely('daily')\<close> is the
  fetch of level \<open>-1\<close> with type 1, number 5 and cooldown 300.
\<close>

theorem get_timely_fetches_negative_slot:
  "(s \<noteq> [] \<and> map_err int_of_str (split s ''|'') = Inr (num # cooldown # rest) \<longrightarrow>
      respond (get_timely env ''daily'' c) (PStr s) =
        bind_io (get_level env (- 1) (1, num mod 100000, cooldown) c)
          (\<lambda>level. attempt (lib env ''attach_client'' [level, client_obj c]) Return)
      \<and> respond (get_timely env ''weekly'' c) (PStr s) =
        bind_io (get_level env (- 2) (2, num mod 100000, cooldown) c)
          (\<lambda>level. attempt (lib env ''attach_client'' [level, client_obj c]) Return))
   \<and> respond (get_timely env ''daily'' c) (PStr ''5|300|7'') =
        bind_io (get_level env (- 1) (1, 5, 300) c)
          (\<lambda>level. attempt (lib env ''attach_client'' [level, client_obj c]) Return)
   \<and> (- 2 \<le> level_id \<longrightarrow>
        pending (get_level env level_id (t, n, cd) c) =
          Some \<lparr>route = ''DOWNLOAD_LEVEL'',
                parameters =
                  [(''create_new'', []), (''put_definer'', [PStr ''levelid'', PInt level_id]), (''finish'', [])],
                error_codes = [(- 1, MissingAccess)], raise_errors = True, custom_base = None\<rparr>
        \<and> respond (get_level env level_id (t, n, cd) c) (PStr body) =
            attempt
              (parse env
                 [(''split'', [PStr ''#'']), (''take'', [PInt 0]), (''split'', [PStr '':'']),
                  (''add_ext'', [PDict [(PInt 101, PInt t), (PInt 102, PInt n), (PInt 103, PInt cd)]]),
                  (''should_map'', [])]
                 (PStr body))
              (\<lambda>level_data. get_level_found env level_data [(- 1, MissingAccess)] c))"
proof -
  have example: "respond (get_timely env ''daily'' c) (PStr ''5|300|7'') =
        bind_io (get_level env (- 1) (1, 5, 300) c)
          (\<lambda>level. attempt (lib env ''attach_client'' [level, client_obj c]) Return)"
    using get_timely_daily [of "''5|300|7''" 5 300 "[7]" env c] fields_of_5_300_7 by simp
  show ?thesis
    using example get_timely_daily [of s num cooldown rest env c]
      get_timely_weekly [of s num cooldown rest env c]
      get_level_pending [of level_id env t n cd c] get_level_respond [of level_id env t n cd c body]
    by blast
qed

theorem get_timely_fetches_negative_slot_witness:
  "respond (get_timely sample_env ''weekly'' logged_client) (PStr ''200012|-45'') =
     bind_io (get_level sample_env (- 2) (2, 12, - 45) logged_client)
       (\<lambda>level. attempt (lib sample_env ''attach_client'' [level, client_obj logged_client]) Return)
   \<and> map_option parameters (pending (get_level sample_env (- 2) (2, 12, - 45) logged_client)) =
       Some [(''create_new'', []), (''put_definer'', [PStr ''levelid'', PInt (- 2)]), (''finish'', [])]"
  using get_timely_fetches_negative_slot
      [where s = "''200012|-45''" and num = 200012 and cooldown = "- 45" and rest = "[]"
         and env = sample_env and c = logged_client and level_id = "- 2" and t = 2 and n = 12 and cd = "- 45"]
  by (simp add: split_eval int_eval)

section \<open>Properties of get_user\<close>

text \<open>
  C10. With \<^verbatim>\<open>return_only_stats=False\<close>, after the profile lookup has succeeded and
  its reply has parsed to a map, \<^verbatim>\<open>get_user\<close> sends the search by player id. When
  the parser answers the reply of that search with the no-result sentinel,
  \<^verbatim>\<open>get_user\<close> returns \<^verbatim>\<open>None\<close>: no User, no error. When it answers with a map, the
  name, icon and icon type of that map are written over the profile's fields and the
  converted User is returned.
\<close>

theorem get_user_returns_None_on_empty_search:
  "body1 \<noteq> PInt (- 1) \<and> parse env [(''with_split'', [PStr '':'']), (''should_map'', [])] body1 = Inr (PDict d) \<longrightarrow>
     map_option route (pending (respond (get_user env account_id False c) body1)) = Some ''USER_SEARCH''
     \<and> (parse env
           [(''split'', [PStr ''#'']), (''take'', [PInt 0]), (''check_empty'', []),
            (''split'', [PStr '':'']), (''should_map'', [])] body2 = Inr PNone \<longrightarrow>
         respond (respond (get_user env account_id False c) body1) body2 = Return PNone)
     \<and> (parse env
           [(''split'', [PStr ''#'']), (''take'', [PInt 0]), (''check_empty'', []),
            (''split'', [PStr '':'']), (''should_map'', [])] body2 = Inr (PDict found) \<longrightarrow>
         respond (respond (get_user env account_id False c) body1) body2 =
           attempt
             (lib env ''ClassConverter.user_convert''
                [PDict (foldl (\<lambda>d (k, v). dict_set d k v) d
                          (map (\<lambda>k. (k, case map_of found k of None \<Rightarrow> PNone | Some v \<Rightarrow> v))
                             [Index env ''USER_NAME'', Index env ''USER_ICON'', Index env ''USER_ICON_TYPE''])),
                 client_obj c])
             Return)"
  by (cases body1; cases body2) (simp_all add: get_user_def http_request_def)

theorem get_user_returns_None_on_empty_search_witness:
  "respond (respond (get_user sample_env (PInt 71) False logged_client) (PStr ''1:player:2:16:16:71'')) (PStr [])
     = Return PNone
   \<and> respond (respond (get_user sample_env (PInt 71) False logged_client) (PStr ''1:player:2:16:16:71''))
       (PStr ''1:Player:2:16:9:4:14:0#1:0:10'')
     = Return
         (PObj ''ClassConverter.user_convert''
            [PDict [(PInt 1, PStr ''Player''), (PInt 2, PInt 16), (PInt 16, PInt 71), (PInt 9, PInt 4), (PInt 14, PInt 0)],
             client_obj logged_client])"
  using get_user_returns_None_on_empty_search
      [where ?body1.0 = "PStr ''1:player:2:16:16:71''" and env = sample_env
         and d = "[(PInt 1, PStr ''player''), (PInt 2, PInt 16), (PInt 16, PInt 71)]"
         and ?body2.0 = "PStr []" and account_id = "PInt 71" and c = logged_client]
    get_user_returns_None_on_empty_search
      [where ?body1.0 = "PStr ''1:player:2:16:16:71''" and env = sample_env
         and d = "[(PInt 1, PStr ''player''), (PInt 2, PInt 16), (PInt 16, PInt 71)]"
         and ?body2.0 = "PStr ''1:Player:2:16:9:4:14:0#1:0:10''"
         and found = "[(PInt 1, PStr ''Player''), (PInt 2, PInt 16), (PInt 9, PInt 4), (PInt 14, PInt 0)]"
         and account_id = "PInt 71" and c = logged_client]
  by (simp add: sample_env_def sample_parse_def sample_Index_def coerce_def decimal_def split_eval
      ascii_digit_def digit_val_def dict_set_def)

section \<open>Operations that name an undefined route\<close>

lemma Route_attr_RATE_LEVEL_DEMON: "Route_attr ''RATE_LEVEL_DEMON'' = Inl AttributeError"
  by (simp add: Route_attr_def Route_def)

lemma Route_attr_GD_URL: "Route_attr ''GD_URL'' = Inl AttributeError"
  by (simp add: Route_attr_def Route_def)

lemma Route_attr_LOAD_DATA: "Route_attr ''LOAD_DATA'' = Inl AttributeError"
  by (simp add: Route_attr_def Route_def)

lemma Route_attr_GET_MAP_PACKS: "Route_attr ''GET_MAP_PACKS'' = Inl AttributeError"
  by (simp add: Route_attr_def Route_def)

lemma Route_attr_GET_USER_TOP: "Route_attr ''GET_USER_TOP'' = Inl AttributeError"
  by (simp add: Route_attr_def Route_def)

lemma Route_attr_GET_ACC_COMMENTS: "Route_attr ''GET_ACC_COMMENTS'' = Inl AttributeError"
  by (simp add: Route_attr_def Route_def)

text \<open>
  C9. The claim tells what \<^verbatim>\<open>rate_demon\<close> returns for an empty or zero reply, for a
  positive reply and for a negative one. Line 639 evaluates
  \<^verbatim>\<open>Route.RATE_LEVEL_DEMON\<close>, which the class \<^verbatim>\<open>Route\<close> does not define:
  \<^verbatim>\<open>rate_demon\<close> raises \<^verbatim>\<open>AttributeError\<close> for every argument and every server, no
  request goes out, and no run returns \<^verbatim>\<open>False\<close>, \<^verbatim>\<open>True\<close> or \<^verbatim>\<open>None\<close>; so with
  servers that would answer \<open>0\<close>, \<open>7\<close> and \<open>-1\<close>.
\<close>

theorem rate_demon_stopped_by_undefined_route:
  "exec server (rate_demon lvl demon_rating mod_arg c) = (Inl AttributeError, [])
   \<and> exec (\<lambda>url params. PInt 0)
        (rate_demon \<lparr>level_obj_id = PInt 128\<rparr> \<lparr>member_name = ''HARD_DEMON'', member_value = 3\<rparr> False logged_client)
       = (Inl AttributeError, [])
   \<and> exec (\<lambda>url params. PInt 7)
        (rate_demon \<lparr>level_obj_id = PInt 128\<rparr> \<lparr>member_name = ''HARD_DEMON'', member_value = 3\<rparr> False logged_client)
       = (Inl AttributeError, [])
   \<and> exec (\<lambda>url params. PInt (- 1))
        (rate_demon \<lparr>level_obj_id = PInt 128\<rparr> \<lparr>member_name = ''HARD_DEMON'', member_value = 3\<rparr> False logged_client)
       = (Inl AttributeError, [])"
proof -
  have "exec server (rate_demon lvl demon_rating mod_arg c) = (Inl AttributeError, [])"
    for server lvl demon_rating mod_arg c
    by (simp add: exec_def rate_demon_def Let_def resolve_def Route_attr_RATE_LEVEL_DEMON)
  then show ?thesis by simp
qed

text \<open>
  C5. The claim asks that \<^verbatim>\<open>load_save\<close> return a boolean and report every failure of
  its pipeline as \<^verbatim>\<open>False\<close>. Line 428 evaluates \<^verbatim>\<open>Route.GD_URL\<close> and line 438
  \<^verbatim>\<open>Route.LOAD_DATA\<close>, both before the \<^verbatim>\<open>try\<close> block of line 440 and neither defined
  in the class \<^verbatim>\<open>Route\<close>: \<^verbatim>\<open>load_save\<close> raises \<^verbatim>\<open>AttributeError\<close> for every client
  and every server, no request goes out, and no run returns a boolean.
\<close>

theorem load_save_stopped_by_undefined_route:
  "exec server (load_save env c) = (Inl AttributeError, [])
   \<and> fst (exec server (load_save env c)) \<noteq> Inr (PBool False, c)
   \<and> exec (\<lambda>url params. PStr ''H4sI;H4sJ;'') (load_save sample_env logged_client) = (Inl AttributeError, [])
   \<and> Route_attr ''GD_URL'' = Inl AttributeError
   \<and> Route_attr ''LOAD_DATA'' = Inl AttributeError"
proof -
  have "exec server (load_save env c) = (Inl AttributeError, [])" for server env c
    by (simp add: exec_def load_save_def resolve_def Route_attr_GD_URL)
  then show ?thesis
    using Route_attr_GD_URL Route_attr_LOAD_DATA by simp
qed

text \<open>
  C4. The claim asks that every listing operation answer a reply with no data by the
  empty list, raising nothing. \<^verbatim>\<open>get_leaderboard\<close> (line 363), \<^verbatim>\<open>get_top\<close> (line 397),
  \<^verbatim>\<open>get_page_map_packs\<close> (line 896) and \<^verbatim>\<open>retrieve_page_comments\<close> for a profile
  (line 976) evaluate \<^verbatim>\<open>Route.GET_LEVEL_SCORES\<close>, \<^verbatim>\<open>Route.GET_USER_TOP\<close>,
  \<^verbatim>\<open>Route.GET_MAP_PACKS\<close> and \<^verbatim>\<open>Route.GET_ACC_COMMENTS\<close>, none of them defined in the
  class \<^verbatim>\<open>Route\<close>: each raises \<^verbatim>\<open>AttributeError\<close> against every server, the one that
  answers the empty body among them, and no request goes out.
\<close>

theorem listing_operations_stopped_by_undefined_route:
  "exec server (get_leaderboard env lvl strat c) = (Inl AttributeError, [])
   \<and> exec server (get_top env \<lparr>member_name = top_name, member_value = 0\<rparr> count_arg c) = (Inl AttributeError, [])
   \<and> exec server (get_page_map_packs env page raise c) = (Inl AttributeError, [])
   \<and> exec server (retrieve_page_comments env commenter ''profile'' 0 raise strat c) = (Inl AttributeError, [])
   \<and> exec (\<lambda>url params. PStr [])
        (get_leaderboard sample_env \<lparr>level_obj_id = PInt 128\<rparr> \<lparr>member_name = ''ALL'', member_value = 1\<rparr> logged_client)
       = (Inl AttributeError, [])
   \<and> exec (\<lambda>url params. PStr []) (get_page_map_packs sample_env 0 False logged_client) = (Inl AttributeError, [])"
proof -
  have leaderboard: "exec server (get_leaderboard env lvl strat c) = (Inl AttributeError, [])"
    for server env lvl strat c
    by (simp add: exec_def get_leaderboard_def resolve_def Route_attr_GET_LEVEL_SCORES)
  have top: "exec server (get_top env \<lparr>member_name = top_name, member_value = 0\<rparr> count_arg c) = (Inl AttributeError, [])"
    by (simp add: exec_def get_top_def Let_def resolve_def Route_attr_GET_USER_TOP)
  have packs: "exec server (get_page_map_packs env page raise c) = (Inl AttributeError, [])"
    for server env page raise c
    by (simp add: exec_def get_page_map_packs_def resolve_def Route_attr_GET_MAP_PACKS)
  have comments: "exec server (retrieve_page_comments env commenter ''profile'' 0 raise strat c) = (Inl AttributeError, [])"
    by (simp add: exec_def retrieve_page_comments_def Let_def resolve_def Route_attr_GET_ACC_COMMENTS)
  from leaderboard top packs comments show ?thesis by simp
qed

end
